theory Spec2Isabelle
  imports Complex_Main
begin

section \<open>JavaScript primitives used by the mock client\<close>

text \<open>
  The routing conditions of \<open>mockApiClient\<close> mix booleans and strings
  (\<open>url.includes('/battles/') && !url.includes('/battles/') + '/'\<close>), so the few
  JavaScript operators they use are modelled on a two-constructor value type: truthiness,
  logical not, \<open>+\<close> (string concatenation once one operand is a string) and \<open>&&\<close>
  (which returns one of its operands).
\<close>

datatype jsprim = PBool bool | PStr string

fun truthy :: "jsprim \<Rightarrow> bool" where
  "truthy (PBool b) = b"
| "truthy (PStr s) = (s \<noteq> [])"

fun to_string :: "jsprim \<Rightarrow> string" where
  "to_string (PBool b) = (if b then ''true'' else ''false'')"
| "to_string (PStr s) = s"

definition js_not :: "jsprim \<Rightarrow> jsprim" where
  "js_not v = PBool (\<not> truthy v)"

text \<open>\<open>a + '/'\<close> with a string operand: both sides are converted to strings and joined.\<close>

definition js_plus_str :: "jsprim \<Rightarrow> string \<Rightarrow> jsprim" where
  "js_plus_str v s = PStr (to_string v @ s)"

definition js_and :: "jsprim \<Rightarrow> jsprim \<Rightarrow> jsprim" where
  "js_and a b = (if truthy a then b else a)"

text \<open>\<open>String.prototype.includes\<close>: \<open>t\<close> occurs in \<open>s\<close> as a contiguous run.\<close>

fun str_includes :: "string \<Rightarrow> string \<Rightarrow> bool" where
  "str_includes [] t = (t = [])"
| "str_includes (c # s) t = (take (length t) (c # s) = t \<or> str_includes s t)"

text \<open>
  \<open>String.prototype.split\<close> with a one-character separator: the pieces between the
  separators, empty pieces included, so the result is never empty.
\<close>

fun split :: "char \<Rightarrow> string \<Rightarrow> string list" where
  "split sep [] = [[]]"
| "split sep (c # s) =
     (if c = sep then [] # split sep s
      else (case split sep s of
              [] \<Rightarrow> [[c]]
            | w # ws \<Rightarrow> (c # w) # ws))"

text \<open>\<open>Array.prototype.pop\<close>, read for its value: the last element, \<open>undefined\<close> on \<open>[]\<close>.\<close>

definition pop :: "'a list \<Rightarrow> 'a option" where
  "pop xs = (case rev xs of [] \<Rightarrow> None | x # _ \<Rightarrow> Some x)"


section \<open>Data model (types/api.ts)\<close>

text \<open>
  The interfaces of \<open>types/api.ts\<close> as records. Several interfaces share field names
  (\<open>id\<close>, \<open>created_at\<close>, \<open>total_votes\<close>), so every field carries a prefix naming its
  interface: \<open>u_\<close> User, \<open>el_\<close> BattleElement, \<open>es_\<close> engagement_stats, \<open>b_\<close> Battle,
  \<open>vr_\<close> VoteRequest, \<open>cb_\<close> CreateBattleRequest. Optional fields are options.
  JavaScript numbers are integers where the data only holds counts, and reals for
  \<open>trending_score\<close>.
\<close>

record User =
  u_id :: string
  u_username :: string
  u_email :: string
  u_avatar_url :: "string option"
  u_bio :: "string option"
  u_battles_count :: int
  u_followers_count :: int
  u_following_count :: int
  u_total_votes_received :: int
  u_created_at :: string

datatype media_type = text_media | image_media | audio_media | video_media | document_media

record BattleElement =
  el_id :: string
  el_name :: string
  el_media_type :: media_type
  el_media_url :: "string option"
  el_vote_count :: int
  el_percentage :: int

record engagement_stats =
  es_total_votes :: int
  es_likes :: int
  es_shares :: int
  es_comments :: int
  es_views :: int

record Battle =
  b_id :: string
  b_title :: string
  b_description :: string
  b_category :: string
  b_total_votes :: int
  b_elements :: "BattleElement list"
  b_creator :: User
  b_created_at :: string
  b_is_active :: bool
  b_trending_score :: real
  b_user_voted :: bool
  b_user_vote_element :: "string option"
  b_engagement_stats :: engagement_stats

record VoteRequest =
  vr_battle_id :: string
  vr_element_id :: string
  vr_voter_ip :: "string option"
  vr_fingerprint :: "string option"

record CreateBattleRequest =
  cb_title :: "string option"
  cb_description :: "string option"
  cb_category :: string
  cb_elements :: "(string \<times> media_type) list"

record pagination =
  page :: nat
  per_page :: nat
  total :: nat
  pages :: nat

text \<open>
  The body of a POST is untyped in the source (\<open>data: any\<close>); the services send a
  \<open>VoteRequest\<close>, a \<open>CreateBattleRequest\<close> or nothing.

  What the \<open>data\<close> field of a response envelope holds in the mock client: an array of
  battles or of users, one battle, one user, the login result \<open>{user, token}\<close>, or the
  battle the create branch builds (a random id, the request's fields spread over it, then
  fixed defaults).
\<close>

datatype post_data = VoteData VoteRequest | CreateData CreateBattleRequest | NoData

record NewBattle =
  nb_id :: string
  nb_spread :: post_data
  nb_creator :: User
  nb_created_at :: string
  nb_is_active :: bool
  nb_trending_score :: real
  nb_total_votes :: int
  nb_user_voted :: bool
  nb_user_vote_element :: "string option"
  nb_engagement_stats :: engagement_stats

datatype payload =
    Battles "Battle list"
  | OneBattle Battle
  | Users "User list"
  | OneUser User
  | Auth User string
  | Created NewBattle

text \<open>
  \<open>ApiResponse<T>\<close>: the envelope. A field the object literal does not write is
  \<open>None\<close> (\<open>undefined\<close> in JavaScript); \<open>meta\<close> is \<open>{pagination: ...}\<close>.
\<close>

record ApiResponse =
  success :: bool
  data :: "payload option"
  message :: "string option"
  meta :: "pagination option"

text \<open>
  The value a client call resolves to is untyped in the source (\<open>response.data\<close> of an
  \<open>any\<close>): it may be an envelope object, a bare array of battles, a bare battle, or
  \<open>undefined\<close>. The services return it as it is.
\<close>

datatype jsval = JEnvelope ApiResponse | JArray "Battle list" | JBattle Battle | JUndefined

text \<open>An axios-style response object \<open>{data: ...}\<close>.\<close>

record response =
  r_data :: jsval

text \<open>\<open>throw new Error(msg)\<close>.\<close>

datatype error = Error string


section \<open>Mock data (mocks/data)\<close>

definition mockUsers :: "User list" where
  "mockUsers =
    [\<lparr>u_id = ''1'', u_username = ''testuser'', u_email = ''test@example.com'',
      u_avatar_url = Some ''https://images.unsplash.com/photo-1472099645785-5658abf4ff4e?w=150&h=150&fit=crop&crop=face'',
      u_bio = Some ''VoteFight enthusiast and battle creator'',
      u_battles_count = 15, u_followers_count = 120, u_following_count = 89,
      u_total_votes_received = 2500, u_created_at = ''2024-01-15T10:30:00Z''\<rparr>,
     \<lparr>u_id = ''2'', u_username = ''battlemaster'', u_email = ''battle@example.com'',
      u_avatar_url = Some ''https://images.unsplash.com/photo-1507003211169-0a1dd7228f2d?w=150&h=150&fit=crop&crop=face'',
      u_bio = Some ''Creating epic battles since 2024'',
      u_battles_count = 32, u_followers_count = 450, u_following_count = 120,
      u_total_votes_received = 8900, u_created_at = ''2024-01-10T08:15:00Z''\<rparr>]"

definition text_element :: "string \<Rightarrow> string \<Rightarrow> int \<Rightarrow> int \<Rightarrow> BattleElement" where
  "text_element i n v p =
     \<lparr>el_id = i, el_name = n, el_media_type = text_media, el_media_url = None,
      el_vote_count = v, el_percentage = p\<rparr>"

definition battle1 :: Battle where
  "battle1 =
    \<lparr>b_id = ''1'', b_title = ''iPhone vs Samsung'',
     b_description = ''Which smartphone is better for daily use?'',
     b_category = ''technology'', b_total_votes = 1250,
     b_elements = [text_element ''1'' ''iPhone'' 750 60, text_element ''2'' ''Samsung'' 500 40],
     b_creator = mockUsers ! 0, b_created_at = ''2024-01-20T14:30:00Z'',
     b_is_active = True, b_trending_score = 85.5,
     b_user_voted = False, b_user_vote_element = None,
     b_engagement_stats = \<lparr>es_total_votes = 1250, es_likes = 45, es_shares = 12,
       es_comments = 8, es_views = 2500\<rparr>\<rparr>"

definition battle2 :: Battle where
  "battle2 =
    \<lparr>b_id = ''2'', b_title = ''Coca-Cola vs Pepsi'',
     b_description = ''The ultimate cola battle!'',
     b_category = ''food'', b_total_votes = 890,
     b_elements = [text_element ''3'' ''Coca-Cola'' 534 60, text_element ''4'' ''Pepsi'' 356 40],
     b_creator = mockUsers ! 1, b_created_at = ''2024-01-19T16:45:00Z'',
     b_is_active = True, b_trending_score = 72.3,
     b_user_voted = True, b_user_vote_element = Some ''3'',
     b_engagement_stats = \<lparr>es_total_votes = 890, es_likes = 32, es_shares = 18,
       es_comments = 15, es_views = 1800\<rparr>\<rparr>"

definition battle3 :: Battle where
  "battle3 =
    \<lparr>b_id = ''3'', b_title = ''Netflix vs Disney+'',
     b_description = ''Which streaming service do you prefer?'',
     b_category = ''entertainment'', b_total_votes = 2100,
     b_elements = [text_element ''5'' ''Netflix'' 1260 60, text_element ''6'' ''Disney+'' 840 40],
     b_creator = mockUsers ! 0, b_created_at = ''2024-01-18T12:20:00Z'',
     b_is_active = True, b_trending_score = 91.2,
     b_user_voted = False, b_user_vote_element = None,
     b_engagement_stats = \<lparr>es_total_votes = 2100, es_likes = 78, es_shares = 25,
       es_comments = 22, es_views = 4200\<rparr>\<rparr>"

definition battle4 :: Battle where
  "battle4 =
    \<lparr>b_id = ''4'', b_title = ''Pizza vs Burger'',
     b_description = ''What's your favorite fast food?'',
     b_category = ''food'', b_total_votes = 650,
     b_elements = [text_element ''7'' ''Pizza'' 390 60, text_element ''8'' ''Burger'' 260 40],
     b_creator = mockUsers ! 1, b_created_at = ''2024-01-17T09:15:00Z'',
     b_is_active = True, b_trending_score = 58.7,
     b_user_voted = True, b_user_vote_element = Some ''7'',
     b_engagement_stats = \<lparr>es_total_votes = 650, es_likes = 28, es_shares = 9,
       es_comments = 12, es_views = 1300\<rparr>\<rparr>"

definition battle5 :: Battle where
  "battle5 =
    \<lparr>b_id = ''5'', b_title = ''Tesla vs BMW'',
     b_description = ''Electric vs Luxury - which car would you choose?'',
     b_category = ''technology'', b_total_votes = 1800,
     b_elements = [text_element ''9'' ''Tesla'' 1080 60, text_element ''10'' ''BMW'' 720 40],
     b_creator = mockUsers ! 0, b_created_at = ''2024-01-16T11:30:00Z'',
     b_is_active = True, b_trending_score = 88.9,
     b_user_voted = False, b_user_vote_element = None,
     b_engagement_stats = \<lparr>es_total_votes = 1800, es_likes = 65, es_shares = 20,
       es_comments = 18, es_views = 3600\<rparr>\<rparr>"

definition mockBattles :: "Battle list" where
  "mockBattles = [battle1, battle2, battle3, battle4, battle5]"

text \<open>The hand-written lists index \<open>mockBattles\<close> from 0, all within range.\<close>

definition mockTrendingBattles :: "Battle list" where
  "mockTrendingBattles =
     [mockBattles ! 2, mockBattles ! 0, mockBattles ! 4, mockBattles ! 1, mockBattles ! 3]"

definition mockPersonalizedBattles :: "Battle list" where
  "mockPersonalizedBattles = [mockBattles ! 0, mockBattles ! 2, mockBattles ! 4]"

definition mockQuickPicksBattles :: "Battle list" where
  "mockQuickPicksBattles = [mockBattles ! 3, mockBattles ! 1, mockBattles ! 0]"

definition getMockBattleById :: "string option \<Rightarrow> Battle option" where
  "getMockBattleById i = find (\<lambda>battle. Some (b_id battle) = i) mockBattles"

definition getMockUserByUsername :: "string option \<Rightarrow> User option" where
  "getMockUserByUsername n = find (\<lambda>user. Some (u_username user) = n) mockUsers"


section \<open>The mock client (services/mockApiClient)\<close>

text \<open>
  The query parameters the mock client reads from \<open>config.params\<close>. \<open>category\<close> is a
  string when present; the other three are only tested for truthiness. Any other
  parameter (\<open>status\<close>, \<open>search\<close>, \<open>page\<close>, \<open>per_page\<close>) is ignored there. A missing
  \<open>config\<close> or \<open>params\<close> is \<open>None\<close>, which \<open>config?.params || {}\<close> turns into the
  empty object.
\<close>

record params =
  category :: "string option"
  trending :: bool
  personalized :: bool
  quick_picks :: bool

definition no_params :: params where
  "no_params = \<lparr>category = None, trending = False, personalized = False, quick_picks = False\<rparr>"

text \<open>
  The first condition of the \<open>battles\<close> and \<open>users\<close> routes,
  \<open>url.includes(r) && !url.includes(r) + '/'\<close>. Unary \<open>!\<close> binds tighter than \<open>+\<close>,
  and \<open>+\<close> tighter than \<open>&&\<close>, so the right operand is the string \<open>(!url.includes(r)) + '/'\<close>.
\<close>

definition list_route_cond :: "string \<Rightarrow> string \<Rightarrow> jsprim" where
  "list_route_cond url r =
     js_and (PBool (str_includes url r))
            (js_plus_str (js_not (PBool (str_includes url r))) ''/'')"

definition envelope :: "payload \<Rightarrow> response" where
  "envelope d = \<lparr>r_data = JEnvelope \<lparr>success = True, data = Some d, message = None, meta = None\<rparr>\<rparr>"

definition message_only :: "string \<Rightarrow> response" where
  "message_only m = \<lparr>r_data = JEnvelope \<lparr>success = True, data = None, message = Some m, meta = None\<rparr>\<rparr>"

text \<open>\<open>Math.ceil(battles.length / 20)\<close>.\<close>

definition pages_of :: "nat \<Rightarrow> nat" where
  "pages_of n = nat \<lceil>real n / 20\<rceil>"

definition mock_get :: "string \<Rightarrow> params option \<Rightarrow> error + response" where
  "mock_get url config =
    (if truthy (list_route_cond url ''/battles/'') then
       (let ps = (case config of None \<Rightarrow> no_params | Some p \<Rightarrow> p);
            battles = mockBattles;
            battles = (case category ps of
                         None \<Rightarrow> battles
                       | Some c \<Rightarrow> if c = [] then battles
                                  else filter (\<lambda>battle. b_category battle = c) battles);
            battles = (if trending ps then mockTrendingBattles else battles);
            battles = (if personalized ps then mockPersonalizedBattles else battles);
            battles = (if quick_picks ps then mockQuickPicksBattles else battles)
        in Inr \<lparr>r_data = JEnvelope
                 \<lparr>success = True, data = Some (Battles battles), message = None,
                  meta = Some \<lparr>page = 1, per_page = 20, total = length battles,
                               pages = pages_of (length battles)\<rparr>\<rparr>\<rparr>)
     else if str_includes url ''/battles/'' \<and> length (split CHR ''/'' url) > 2 then
       (case getMockBattleById (pop (split CHR ''/'' url)) of
          None \<Rightarrow> Inl (Error ''Battle not found'')
        | Some battle \<Rightarrow> Inr (envelope (OneBattle battle)))
     else if truthy (list_route_cond url ''/users/'') then
       Inr (envelope (Users mockUsers))
     else if str_includes url ''/users/'' \<and> length (split CHR ''/'' url) > 2 then
       (case getMockUserByUsername (pop (split CHR ''/'' url)) of
          None \<Rightarrow> Inl (Error ''User not found'')
        | Some user \<Rightarrow> Inr (envelope (OneUser user)))
     else if str_includes url ''/trending/'' then Inr (envelope (Battles mockTrendingBattles))
     else if str_includes url ''/personalized/'' then Inr (envelope (Battles mockPersonalizedBattles))
     else if str_includes url ''/quick-picks/'' then Inr (envelope (Battles mockQuickPicksBattles))
     else Inr (envelope (Battles [])))"

text \<open>
  The create branch of \<open>post\<close> reads \<open>Math.random()\<close> and the clock; both are inputs of
  the model.
\<close>

record mock_env =
  random_id :: string
  now_iso :: string

definition mock_post :: "mock_env \<Rightarrow> string \<Rightarrow> post_data \<Rightarrow> error + response" where
  "mock_post env url body =
    (if str_includes url ''/auth/login/'' then
       Inr (envelope (Auth (mockUsers ! 0) ''mock-jwt-token''))
     else if str_includes url ''/auth/register/'' then
       Inr (envelope (Auth (mockUsers ! 0) ''mock-jwt-token''))
     else if str_includes url ''/battles/'' \<and> str_includes url ''/vote/'' then
       Inr (message_only ''Vote submitted successfully'')
     else if str_includes url ''/battles/'' \<and> str_includes url ''/like/'' then
       Inr (message_only ''Battle liked successfully'')
     else if str_includes url ''/battles/'' \<and> str_includes url ''/share/'' then
       Inr (message_only ''Battle shared successfully'')
     else if str_includes url ''/battles/'' \<and> \<not> str_includes url ''/vote/''
             \<and> \<not> str_includes url ''/like/'' \<and> \<not> str_includes url ''/share/'' then
       Inr (envelope (Created
         \<lparr>nb_id = random_id env, nb_spread = body, nb_creator = mockUsers ! 0,
          nb_created_at = now_iso env, nb_is_active = True, nb_trending_score = 0,
          nb_total_votes = 0, nb_user_voted = False, nb_user_vote_element = None,
          nb_engagement_stats = \<lparr>es_total_votes = 0, es_likes = 0, es_shares = 0,
            es_comments = 0, es_views = 0\<rparr>\<rparr>))
     else Inr (message_only ''Operation completed successfully''))"

text \<open>
  A client is the pair of methods the battle service calls. The network delay of the
  mock (\<open>await delay(...)\<close>) changes no result and is left out.
\<close>

record client =
  c_get :: "string \<Rightarrow> params option \<Rightarrow> error + response"
  c_post :: "string \<Rightarrow> post_data \<Rightarrow> error + response"

definition mockApiClient :: "mock_env \<Rightarrow> client" where
  "mockApiClient env = \<lparr>c_get = mock_get, c_post = mock_post env\<rparr>"


section \<open>The battle service (services/battleService.ts)\<close>

text \<open>
  \<open>const client = process.env.NODE_ENV === 'development' ? mockApiClient : apiClient\<close>.
  The real \<open>apiClient\<close> talks to a server; it is a parameter here.
\<close>

definition select_client :: "string \<Rightarrow> client \<Rightarrow> mock_env \<Rightarrow> client" where
  "select_client NODE_ENV apiClient env =
     (if NODE_ENV = ''development'' then mockApiClient env else apiClient)"

text \<open>Every getter returns \<open>response.data\<close>; an exception of the client propagates.\<close>

definition response_data :: "error + response \<Rightarrow> error + jsval" where
  "response_data r = (case r of Inl e \<Rightarrow> Inl e | Inr resp \<Rightarrow> Inr (r_data resp))"

definition getBattles :: "client \<Rightarrow> params option \<Rightarrow> error + jsval" where
  "getBattles c filters = response_data (c_get c ''/battles/'' filters)"

definition getBattle :: "client \<Rightarrow> string \<Rightarrow> error + jsval" where
  "getBattle c i = response_data (c_get c (''/battles/'' @ i @ ''/'') None)"

definition createBattle :: "client \<Rightarrow> CreateBattleRequest \<Rightarrow> error + jsval" where
  "createBattle c d = response_data (c_post c ''/battles/'' (CreateData d))"

definition voteBattle :: "client \<Rightarrow> VoteRequest \<Rightarrow> error + unit" where
  "voteBattle c d =
     (case c_post c (''/battles/'' @ vr_battle_id d @ ''/vote/'') (VoteData d) of
        Inl e \<Rightarrow> Inl e
      | Inr _ \<Rightarrow> Inr ())"

definition likeBattle :: "client \<Rightarrow> string \<Rightarrow> error + unit" where
  "likeBattle c i =
     (case c_post c (''/battles/'' @ i @ ''/like/'') NoData of
        Inl e \<Rightarrow> Inl e
      | Inr _ \<Rightarrow> Inr ())"

definition shareBattle :: "client \<Rightarrow> string \<Rightarrow> error + unit" where
  "shareBattle c i =
     (case c_post c (''/battles/'' @ i @ ''/share/'') NoData of
        Inl e \<Rightarrow> Inl e
      | Inr _ \<Rightarrow> Inr ())"

definition getTrendingBattles :: "client \<Rightarrow> error + jsval" where
  "getTrendingBattles c = response_data (c_get c ''/trending/'' None)"

definition getPersonalizedBattles :: "client \<Rightarrow> error + jsval" where
  "getPersonalizedBattles c = response_data (c_get c ''/personalized/'' None)"

definition getQuickPicksBattles :: "client \<Rightarrow> error + jsval" where
  "getQuickPicksBattles c = response_data (c_get c ''/quick-picks/'' None)"

definition getBattlesByCategory :: "client \<Rightarrow> string \<Rightarrow> error + jsval" where
  "getBattlesByCategory c cat =
     response_data (c_get c ''/battles/''
       (Some \<lparr>category = Some cat, trending = False, personalized = False, quick_picks = False\<rparr>))"


section \<open>The polling hooks (hooks/useBattles.ts)\<close>

text \<open>
  Each hook runs one effect: call the fetch function, register it with \<open>setInterval\<close>,
  and return a cleanup that calls \<open>clearInterval\<close> on the handle. The browser's timer
  table is explicit state: the next free handle, the registered intervals (handle,
  callback, delay in milliseconds) and the log of fetch calls made so far. A callback is
  named by the fetch function of its hook and the argument it closes over.
\<close>

datatype fetcher =
    fetchBattles params
  | fetchBattle string
  | fetchTrending
  | fetchPersonalized
  | fetchQuickPicks
  | fetchCategoryBattles string

record runtime =
  next_handle :: nat
  intervals :: "(nat \<times> fetcher \<times> nat) list"
  fetches :: "fetcher list"

definition setInterval :: "fetcher \<Rightarrow> nat \<Rightarrow> runtime \<Rightarrow> nat \<times> runtime" where
  "setInterval cb ms rt =
     (next_handle rt,
      rt\<lparr>next_handle := Suc (next_handle rt),
         intervals := intervals rt @ [(next_handle rt, cb, ms)]\<rparr>)"

definition clearInterval :: "nat \<Rightarrow> runtime \<Rightarrow> runtime" where
  "clearInterval h rt = rt\<lparr>intervals := filter (\<lambda>t. fst t \<noteq> h) (intervals rt)\<rparr>"

definition invoke :: "fetcher \<Rightarrow> runtime \<Rightarrow> runtime" where
  "invoke cb rt = rt\<lparr>fetches := fetches rt @ [cb]\<rparr>"

text \<open>The service call each fetch function makes.\<close>

fun run_fetch :: "client \<Rightarrow> fetcher \<Rightarrow> error + jsval" where
  "run_fetch c (fetchBattles filters) = getBattles c (Some filters)"
| "run_fetch c (fetchBattle i) = getBattle c i"
| "run_fetch c fetchTrending = getTrendingBattles c"
| "run_fetch c fetchPersonalized = getPersonalizedBattles c"
| "run_fetch c fetchQuickPicks = getQuickPicksBattles c"
| "run_fetch c (fetchCategoryBattles cat) = getBattlesByCategory c cat"

text \<open>
  The six effects. Each calls its fetch function once, registers it with
  \<open>setInterval(..., 5 * 60 * 1000)\<close> and returns the handle its cleanup closes over.
\<close>

definition useBattles_effect :: "params \<Rightarrow> runtime \<Rightarrow> nat option \<times> runtime" where
  "useBattles_effect filters rt =
     (let rt1 = invoke (fetchBattles filters) rt;
          (interval, rt2) = setInterval (fetchBattles filters) (5 * 60 * 1000) rt1
      in (Some interval, rt2))"

text \<open>\<open>if (id) { ... }\<close>: an empty string is falsy, and then the effect does nothing.\<close>

definition useBattle_effect :: "string \<Rightarrow> runtime \<Rightarrow> nat option \<times> runtime" where
  "useBattle_effect i rt =
     (if i \<noteq> [] then
        (let rt1 = invoke (fetchBattle i) rt;
             (interval, rt2) = setInterval (fetchBattle i) (5 * 60 * 1000) rt1
         in (Some interval, rt2))
      else (None, rt))"

definition useTrendingBattles_effect :: "runtime \<Rightarrow> nat option \<times> runtime" where
  "useTrendingBattles_effect rt =
     (let rt1 = invoke fetchTrending rt;
          (interval, rt2) = setInterval fetchTrending (5 * 60 * 1000) rt1
      in (Some interval, rt2))"

definition usePersonalizedBattles_effect :: "runtime \<Rightarrow> nat option \<times> runtime" where
  "usePersonalizedBattles_effect rt =
     (let rt1 = invoke fetchPersonalized rt;
          (interval, rt2) = setInterval fetchPersonalized (5 * 60 * 1000) rt1
      in (Some interval, rt2))"

definition useQuickPicksBattles_effect :: "runtime \<Rightarrow> nat option \<times> runtime" where
  "useQuickPicksBattles_effect rt =
     (let rt1 = invoke fetchQuickPicks rt;
          (interval, rt2) = setInterval fetchQuickPicks (5 * 60 * 1000) rt1
      in (Some interval, rt2))"

definition useBattlesByCategory_effect :: "string \<Rightarrow> runtime \<Rightarrow> nat option \<times> runtime" where
  "useBattlesByCategory_effect cat rt =
     (if cat \<noteq> [] then
        (let rt1 = invoke (fetchCategoryBattles cat) rt;
             (interval, rt2) = setInterval (fetchCategoryBattles cat) (5 * 60 * 1000) rt1
         in (Some interval, rt2))
      else (None, rt))"

text \<open>The cleanup \<open>() => clearInterval(interval)\<close>; an effect that returned nothing has none.\<close>

fun cleanup :: "nat option \<Rightarrow> runtime \<Rightarrow> runtime" where
  "cleanup None rt = rt"
| "cleanup (Some interval) rt = clearInterval interval rt"

definition fresh_runtime :: runtime where
  "fresh_runtime = \<lparr>next_handle = 0, intervals = [], fetches = []\<rparr>"


section \<open>Vote validation of the backend plan (plan.md)\<close>

text \<open>
  The plan gives the \<open>votes\<close> table and the check \<open>validate_vote\<close>. A row of the table,
  columns prefixed \<open>v_\<close>: the primary key and the \<open>NOT NULL\<close> columns \<open>voter_ip\<close> and
  \<open>fingerprint\<close> are plain strings; \<open>battle_id\<close>, \<open>element_id\<close>, \<open>session_id\<close> and
  \<open>created_at\<close> are declared without \<open>NOT NULL\<close>, so they are options, \<open>None\<close> for
  \<open>NULL\<close>. Addresses and fingerprints are compared as they are written.
\<close>

record Vote =
  v_id :: string
  v_battle_id :: "string option"
  v_element_id :: "string option"
  v_voter_ip :: string
  v_fingerprint :: string
  v_session_id :: "string option"
  v_created_at :: "string option"

text \<open>
  \<open>Vote.objects.filter(battle_id=..., ip_address=..., fingerprint=...).exists()\<close> holds
  when some row has these three values; a row whose \<open>battle_id\<close> is \<open>NULL\<close> matches no
  battle id. \<open>validate_vote\<close> reads the request through \<open>get_client_ip\<close> and
  \<open>generate_fingerprint\<close>, which the plan does not define: their results are the two
  fields of the request here.
\<close>

record vote_http_request =
  get_client_ip :: string
  generate_fingerprint :: string

datatype ValidationError = ValidationError string

definition validate_vote ::
    "Vote list \<Rightarrow> string \<Rightarrow> string \<Rightarrow> vote_http_request \<Rightarrow> ValidationError + bool" where
  "validate_vote votes battle_id element_id request =
     (let ip = get_client_ip request;
          fingerprint = generate_fingerprint request;
          existing_vote = list_ex (\<lambda>v. v_battle_id v = Some battle_id \<and> v_voter_ip v = ip
                                         \<and> v_fingerprint v = fingerprint) votes
      in if existing_vote then Inl (ValidationError ''You've already voted!'')
         else Inr True)"


section \<open>Vocabulary of the ranking requirements\<close>

text \<open>
  A battle is eligible for a "needs your vote" surface when it is active and the viewing
  user has not voted on it. A list respects eligibility when no battle that is not
  eligible stands before one that is.
\<close>

definition eligible :: "Battle \<Rightarrow> bool" where
  "eligible battle = (b_is_active battle \<and> \<not> b_user_voted battle)"

definition eligible_first :: "Battle list \<Rightarrow> bool" where
  "eligible_first battles = sorted_wrt (\<lambda>a b. \<not> (\<not> eligible a \<and> eligible b)) battles"

text \<open>A list is in score order when no battle stands before one with a strictly higher score.\<close>

definition score_ordered :: "Battle list \<Rightarrow> bool" where
  "score_ordered battles =
     sorted_wrt (\<lambda>a b. \<not> b_trending_score a < b_trending_score b) battles"

text \<open>
  What an effect that polls leaves behind, seen from outside: it returned the handle that
  was free, registered exactly one new interval with that handle, the callback and the
  delay, logged one immediate fetch, and its cleanup removes the intervals of that handle
  and no other.
\<close>

definition polls_every :: "nat \<Rightarrow> fetcher \<Rightarrow> runtime \<Rightarrow> nat option \<times> runtime \<Rightarrow> bool" where
  "polls_every ms cb rt res =
     (fst res = Some (next_handle rt)
      \<and> intervals (snd res) = intervals rt @ [(next_handle rt, cb, ms)]
      \<and> fetches (snd res) = fetches rt @ [cb]
      \<and> next_handle (snd res) = Suc (next_handle rt)
      \<and> intervals (cleanup (fst res) (snd res))
          = filter (\<lambda>t. fst t \<noteq> next_handle rt) (intervals rt))"

text \<open>What a vote request names: a mock battle that is active, and one of its elements.\<close>

definition references_active_battle :: "VoteRequest \<Rightarrow> bool" where
  "references_active_battle d =
     (case getMockBattleById (Some (vr_battle_id d)) of
        None \<Rightarrow> False
      | Some battle \<Rightarrow> b_is_active battle)"

definition element_belongs :: "VoteRequest \<Rightarrow> bool" where
  "element_belongs d =
     (case getMockBattleById (Some (vr_battle_id d)) of
        None \<Rightarrow> False
      | Some battle \<Rightarrow> list_ex (\<lambda>e. el_id e = vr_element_id d) (b_elements battle))"


section \<open>The scoring tick of the trending engine\<close>

text \<open>
  Modelled from the spec: the trending engine's score formula and its tick (section 4.2,
  "Score formula" and "Scheduling"), of which the sources hold no implementation; the mock
  data only carries a constant \<open>trending_score\<close> per battle. Scores are real numbers, so
  the rounding of a floating-point implementation is not part of the model.
\<close>

text \<open>Modelled from the spec: the six factors of a battle's score at a tick.\<close>

record factors =
  vote_velocity :: real
  engagement_rate :: real
  recency_score :: real
  creator_quality :: real
  category_popularity :: real
  social_signal :: real

text \<open>
  Modelled from the spec: the configuration, the six weights and the decay factor applied
  per tick.
\<close>

record engine_config =
  w1 :: real
  w2 :: real
  w3 :: real
  w4 :: real
  w5 :: real
  w6 :: real
  time_decay_factor :: real

text \<open>
  Modelled from the spec: the events a tick pulls, \<open>VoteAccepted{battle_id, element_id,
  timestamp}\<close> and an engagement delta \<open>{battle_id, likes, shares, comments, views}\<close>.
\<close>

datatype engine_event =
    VoteAccepted string string nat
  | EngagementDelta string int int int int

text \<open>
  Modelled from the spec: \<open>score = w1*vote_velocity + ... + w6*social_signal\<close> and
  \<open>score_final = score * time_decay_factor\<close>.
\<close>

definition score :: "engine_config \<Rightarrow> factors \<Rightarrow> real" where
  "score cfg f =
     w1 cfg * vote_velocity f + w2 cfg * engagement_rate f + w3 cfg * recency_score f
     + w4 cfg * creator_quality f + w5 cfg * category_popularity f + w6 cfg * social_signal f"

definition score_final :: "engine_config \<Rightarrow> factors \<Rightarrow> real" where
  "score_final cfg f = score cfg f * time_decay_factor cfg"

text \<open>
  Modelled from the spec: one tick for one battle. With zero new events only the decay
  factor is applied to the previous score; a touched battle is recomputed from the factors
  its events give (\<open>factors_of\<close>, whose computation the spec leaves to tuning).
\<close>

definition tick ::
    "engine_config \<Rightarrow> (engine_event list \<Rightarrow> factors) \<Rightarrow> engine_event list \<Rightarrow> real \<Rightarrow> real" where
  "tick cfg factors_of events previous =
     (if events = [] then previous * time_decay_factor cfg
      else score_final cfg (factors_of events))"

text \<open>Modelled from the spec: consecutive ticks, one list of new events per tick.\<close>

fun run_ticks ::
    "engine_config \<Rightarrow> (engine_event list \<Rightarrow> factors) \<Rightarrow> engine_event list list \<Rightarrow> real \<Rightarrow> real" where
  "run_ticks cfg factors_of [] s = s"
| "run_ticks cfg factors_of (events # rest) s = run_ticks cfg factors_of rest (tick cfg factors_of events s)"


section \<open>Routing facts\<close>

text \<open>\<open>str_includes\<close> is the substring test.\<close>

lemma str_includes_iff: "str_includes s t \<longleftrightarrow> (\<exists>p q. s = p @ t @ q)"
proof (induction s)
  case Nil
  then show ?case by auto
next
  case (Cons c s)
  show ?case
  proof
    assume "str_includes (c # s) t"
    then consider "take (length t) (c # s) = t" | "str_includes s t" by auto
    then show "\<exists>p q. c # s = p @ t @ q"
    proof cases
      case 1
      then have "c # s = [] @ t @ drop (length t) (c # s)"
        by (metis append_Nil append_take_drop_id)
      then show ?thesis by blast
    next
      case 2
      then obtain p q where "s = p @ t @ q" using Cons.IH by blast
      then have "c # s = (c # p) @ t @ q" by simp
      then show ?thesis by blast
    qed
  next
    assume "\<exists>p q. c # s = p @ t @ q"
    then obtain p q where pq: "c # s = p @ t @ q" by blast
    show "str_includes (c # s) t"
    proof (cases p)
      case Nil
      then have "take (length t) (c # s) = t" using pq by simp
      then show ?thesis by simp
    next
      case (Cons a p')
      then have "s = p' @ t @ q" using pq by simp
      then show ?thesis using Cons.IH by auto
    qed
  qed
qed

lemma str_includes_prefix: "str_includes (t @ s) t"
  unfolding str_includes_iff by (metis append_Nil)

text \<open>
  The route condition is truthy exactly when the URL contains the route: its right
  operand is a non-empty string whatever the URL.
\<close>

lemma list_route_truthy: "truthy (list_route_cond url r) = str_includes url r"
  by (simp add: list_route_cond_def js_and_def js_plus_str_def js_not_def)

lemma list_route_value:
  "str_includes url r \<Longrightarrow> list_route_cond url r = PStr ''false/''"
  by (simp add: list_route_cond_def js_and_def js_plus_str_def js_not_def)

lemma mock_get_battle_url:
  "mock_get (''/battles/'' @ i @ ''/'') None =
     Inr \<lparr>r_data = JEnvelope
           \<lparr>success = True, data = Some (Battles mockBattles), message = None,
            meta = Some \<lparr>page = 1, per_page = 20, total = length mockBattles,
                         pages = pages_of (length mockBattles)\<rparr>\<rparr>\<rparr>"
  using str_includes_prefix[of "''/battles/''" "i @ ''/''"]
  by (simp add: mock_get_def list_route_truthy no_params_def del: str_includes.simps)

lemma length_mockBattles: "length mockBattles = 5"
  by (simp add: mockBattles_def)

lemma pages_of_5: "pages_of 5 = 1"
proof -
  have "\<lceil>(1::real) / 4\<rceil> = 1" by (simp add: ceiling_eq_iff)
  then show ?thesis by (simp add: pages_of_def)
qed

lemma mock_get_never_battle_not_found:
  "mock_get url config \<noteq> Inl (Error ''Battle not found'')"
  by (simp add: mock_get_def list_route_truthy Let_def envelope_def split: option.splits)

lemma mock_get_trending: "mock_get ''/trending/'' None = Inr (envelope (Battles mockTrendingBattles))"
  by (simp add: mock_get_def list_route_truthy)

lemma mock_get_personalized: "mock_get ''/personalized/'' None = Inr (envelope (Battles mockPersonalizedBattles))"
  by (simp add: mock_get_def list_route_truthy)

lemma mock_get_quick_picks: "mock_get ''/quick-picks/'' None = Inr (envelope (Battles mockQuickPicksBattles))"
  by (simp add: mock_get_def list_route_truthy)

lemma mock_get_battles_list:
  "\<exists>bs. mock_get ''/battles/'' filters =
     Inr \<lparr>r_data = JEnvelope
           \<lparr>success = True, data = Some (Battles bs), message = None,
            meta = Some \<lparr>page = 1, per_page = 20, total = length bs, pages = pages_of (length bs)\<rparr>\<rparr>\<rparr>"
  by (simp add: mock_get_def list_route_truthy Let_def)

lemma dev_client: "select_client ''development'' api env = mockApiClient env"
  by (simp add: select_client_def)

lemma mock_post_no_error: "mock_post env url body \<noteq> Inl e"
  by (simp add: mock_post_def)

lemma mock_vote_accepted: "voteBattle (select_client ''development'' api env) d = Inr ()"
  using mock_post_no_error[of env "''/battles/'' @ vr_battle_id d @ ''/vote/''" "VoteData d"]
  by (simp add: voteBattle_def dev_client mockApiClient_def split: sum.splits)


text \<open>
  A vote URL \<open>/battles/${battle_id}/vote/\<close> whose battle id holds no slash contains
  neither \<open>/auth/login/\<close> nor \<open>/auth/register/\<close>, so the vote branch of \<open>post\<close>
  answers it.
\<close>

lemma str_includes_suffix: "str_includes (s @ t) t"
  unfolding str_includes_iff by (metis append_Nil2)

lemma str_includes_skip:
  "c \<notin> set b \<Longrightarrow> str_includes (b @ s) (c # r) = str_includes s (c # r)"
  by (induction b) auto

lemma first_piece:
  assumes "CHR ''/'' \<notin> set b" and "take n (b @ CHR ''/'' # s) = p @ CHR ''/'' # q"
    and "CHR ''/'' \<notin> set p"
  shows "b = p"
proof -
  let ?P = "\<lambda>c. c \<noteq> CHR ''/''"
  obtain d where d: "b @ CHR ''/'' # s = p @ CHR ''/'' # (q @ d)"
    using assms(2) by (metis append_take_drop_id append.assoc append_Cons)
  have "takeWhile ?P (b @ CHR ''/'' # s) = takeWhile ?P b"
    by (rule takeWhile_tail) simp
  also have "\<dots> = b"
    using assms(1) by (auto simp: takeWhile_eq_all_conv)
  finally have l: "takeWhile ?P (b @ CHR ''/'' # s) = b" .
  have "takeWhile ?P (p @ CHR ''/'' # (q @ d)) = takeWhile ?P p"
    by (rule takeWhile_tail) simp
  also have "\<dots> = p"
    using assms(3) by (auto simp: takeWhile_eq_all_conv)
  finally have r: "takeWhile ?P (p @ CHR ''/'' # (q @ d)) = p" .
  from l r d show ?thesis by simp
qed

lemma vote_url_not_login:
  assumes "CHR ''/'' \<notin> set b"
  shows "\<not> str_includes (''/battles/'' @ b @ ''/vote/'') ''/auth/login/''"
proof -
  have tail: "\<not> str_includes (b @ ''/vote/'') ''/auth/login/''"
    using str_includes_skip[OF assms, of "''/vote/''" "''auth/login/''"] by simp
  have straddle: "take (length ''auth/login/'') (b @ ''/vote/'') \<noteq> ''auth/login/''"
  proof
    assume eq: "take (length ''auth/login/'') (b @ ''/vote/'') = ''auth/login/''"
    have "b = ''auth''"
      by (rule first_piece[OF assms, of "length ''auth/login/''" "''vote/''" _ "''login/''"])
         (use eq in simp_all)
    with eq show False by simp
  qed
  show ?thesis using tail straddle by simp
qed

lemma vote_url_not_register:
  assumes "CHR ''/'' \<notin> set b"
  shows "\<not> str_includes (''/battles/'' @ b @ ''/vote/'') ''/auth/register/''"
proof -
  have tail: "\<not> str_includes (b @ ''/vote/'') ''/auth/register/''"
    using str_includes_skip[OF assms, of "''/vote/''" "''auth/register/''"] by simp
  have straddle: "take (length ''auth/register/'') (b @ ''/vote/'') \<noteq> ''auth/register/''"
  proof
    assume eq: "take (length ''auth/register/'') (b @ ''/vote/'') = ''auth/register/''"
    have "b = ''auth''"
      by (rule first_piece[OF assms, of "length ''auth/register/''" "''vote/''" _ "''register/''"])
         (use eq in simp_all)
    with eq show False by simp
  qed
  show ?thesis using tail straddle by simp
qed

lemma mock_post_vote_url:
  assumes "CHR ''/'' \<notin> set b"
  shows "mock_post env (''/battles/'' @ b @ ''/vote/'') body
         = Inr (message_only ''Vote submitted successfully'')"
proof -
  have 1: "str_includes (''/battles/'' @ b @ ''/vote/'') ''/battles/''"
    by (rule str_includes_prefix)
  have 2: "str_includes (''/battles/'' @ b @ ''/vote/'') ''/vote/''"
    using str_includes_suffix[of "''/battles/'' @ b" "''/vote/''"] by simp
  show ?thesis
    unfolding mock_post_def
    using 1 2 vote_url_not_login[OF assms] vote_url_not_register[OF assms]
    by (simp del: str_includes.simps append.simps)
qed


section \<open>Single-battle lookup in development mode\<close>

text \<open>
  Claim C10. In development mode \<open>getBattle(id)\<close> never throws 'Battle not found',
  whatever the id. The first routing condition of the mock client is truthy for every URL
  that contains \<open>/battles/\<close> (its value there is the non-empty string \<open>'false/'\<close>), so
  the battles-list branch answers \<open>/battles/${id}/\<close> with the whole list, and no URL at
  all reaches the throw of the single-battle branch.
\<close>

theorem getBattle_never_not_found:
  "truthy (list_route_cond url ''/battles/'') = str_includes url ''/battles/''
   \<and> list_route_cond (''/battles/'' @ i @ ''/'') ''/battles/'' = PStr ''false/''
   \<and> getBattle (select_client ''development'' api env) i =
       Inr (JEnvelope \<lparr>success = True, data = Some (Battles mockBattles), message = None,
                       meta = Some \<lparr>page = 1, per_page = 20, total = 5, pages = 1\<rparr>\<rparr>)
   \<and> getBattle (select_client ''development'' api env) i \<noteq> Inl (Error ''Battle not found'')
   \<and> mock_get url config \<noteq> Inl (Error ''Battle not found'')"
proof -
  have inc: "str_includes (''/battles/'' @ i @ ''/'') ''/battles/''"
    by (rule str_includes_prefix)
  have get: "getBattle (select_client ''development'' api env) i =
       Inr (JEnvelope \<lparr>success = True, data = Some (Battles mockBattles), message = None,
                       meta = Some \<lparr>page = 1, per_page = 20, total = 5, pages = 1\<rparr>\<rparr>)"
    by (simp add: getBattle_def dev_client mockApiClient_def response_data_def
        mock_get_battle_url length_mockBattles pages_of_5 del: append.simps)
  show ?thesis
    using list_route_truthy list_route_value[OF inc] get mock_get_never_battle_not_found
    by simp
qed


section \<open>What the list getters resolve to\<close>

text \<open>
  Claim C9, as stated, gives the envelope of both \<open>getBattles\<close> and
  \<open>getTrendingBattles\<close> a \<open>meta\<close> field. The envelope \<open>getTrendingBattles\<close> resolves to
  holds the trending list and has no \<open>meta\<close>.
\<close>

theorem trending_envelope_counterexample:
  "\<forall>api env. \<exists>r. getTrendingBattles (select_client ''development'' api env) = Inr (JEnvelope r)
       \<and> data r = Some (Battles mockTrendingBattles) \<and> meta r = None"
  by (simp add: getTrendingBattles_def dev_client mockApiClient_def response_data_def
      mock_get_trending envelope_def)

text \<open>
  Claim C9, amended. In development mode \<open>getBattles\<close> resolves to the envelope object
  with \<open>success\<close>, \<open>data\<close> (an array of battles) and \<open>meta\<close>, for every filter;
  \<open>getTrendingBattles\<close> resolves to the envelope with \<open>success\<close> and \<open>data\<close> only;
  neither ever resolves to an array.
\<close>

theorem service_resolves_to_envelope:
  "(\<exists>bs pg. getBattles (select_client ''development'' api env) filters =
       Inr (JEnvelope \<lparr>success = True, data = Some (Battles bs), message = None, meta = Some pg\<rparr>))
   \<and> getTrendingBattles (select_client ''development'' api env) =
       Inr (JEnvelope \<lparr>success = True, data = Some (Battles mockTrendingBattles),
                       message = None, meta = None\<rparr>)
   \<and> getBattles (select_client ''development'' api env) filters \<noteq> Inr (JArray xs)
   \<and> getTrendingBattles (select_client ''development'' api env) \<noteq> Inr (JArray ys)"
proof -
  obtain bs where "mock_get ''/battles/'' filters =
     Inr \<lparr>r_data = JEnvelope
           \<lparr>success = True, data = Some (Battles bs), message = None,
            meta = Some \<lparr>page = 1, per_page = 20, total = length bs, pages = pages_of (length bs)\<rparr>\<rparr>\<rparr>"
    using mock_get_battles_list by blast
  then show ?thesis
    by (simp add: getBattles_def getTrendingBattles_def dev_client mockApiClient_def
        response_data_def mock_get_trending envelope_def)
qed


section \<open>Vote submission in development mode\<close>

text \<open>
  Claim C1, as stated, has the second vote of one identity on one battle rejected. The
  mock client accepts both votes of the identity (203.0.113.7, fp-1) on battle 1, the
  second for another element.
\<close>

theorem duplicate_vote_counterexample:
  "\<forall>api env.
     map (voteBattle (select_client ''development'' api env))
       [\<lparr>vr_battle_id = ''1'', vr_element_id = ''1'',
         vr_voter_ip = Some ''203.0.113.7'', vr_fingerprint = Some ''fp-1''\<rparr>,
        \<lparr>vr_battle_id = ''1'', vr_element_id = ''2'',
         vr_voter_ip = Some ''203.0.113.7'', vr_fingerprint = Some ''fp-1''\<rparr>]
     = [Inr (), Inr ()]"
  by (simp add: mock_vote_accepted)

text \<open>
  Claim C1, amended. The development mock client makes no duplicate check: it accepts a
  vote and a second vote of the same identity for any element. Duplicate rejection is the
  planned backend's check: \<open>validate_vote\<close> raises "You've already voted!" exactly when
  the table holds a vote with the same battle, IP and fingerprint, and returns \<open>True\<close>
  exactly when it holds none; so it accepts the first vote of an identity on a battle (in
  particular on the empty table) and, once a vote of the identity on the battle is stored,
  rejects every later attempt, whichever element it names.
\<close>

theorem duplicate_vote_amended:
  "voteBattle (select_client ''development'' api env) d = Inr ()
   \<and> voteBattle (select_client ''development'' api env) (d\<lparr>vr_element_id := e'\<rparr>) = Inr ()
   \<and> (validate_vote votes b e request = Inl (ValidationError ''You've already voted!''))
       = list_ex (\<lambda>v. v_battle_id v = Some b \<and> v_voter_ip v = get_client_ip request
                       \<and> v_fingerprint v = generate_fingerprint request) votes
   \<and> (validate_vote votes b e request = Inr True)
       = (\<not> list_ex (\<lambda>v. v_battle_id v = Some b \<and> v_voter_ip v = get_client_ip request
                       \<and> v_fingerprint v = generate_fingerprint request) votes)
   \<and> validate_vote [] b e request = Inr True
   \<and> validate_vote (votes @ [v\<lparr>v_battle_id := Some b\<rparr>] @ later) b e'
         \<lparr>get_client_ip = v_voter_ip v, generate_fingerprint = v_fingerprint v\<rparr>
       = Inl (ValidationError ''You've already voted!'')"
  by (simp add: mock_vote_accepted validate_vote_def Let_def)

text \<open>
  Claim C2, as stated, has the 21st attempt of one IP rejected. The mock client accepts
  the 21st of 21 attempts from 203.0.113.7 (index 20 of the results).
\<close>

theorem rate_limit_counterexample:
  "\<forall>api env.
     map (voteBattle (select_client ''development'' api env))
       (replicate 21 \<lparr>vr_battle_id = ''1'', vr_element_id = ''1'',
         vr_voter_ip = Some ''203.0.113.7'', vr_fingerprint = Some ''fp-1''\<rparr>) ! 20
     = Inr ()"
  by (simp add: mock_vote_accepted)

text \<open>
  Claim C2, amended. The development mock client imposes no rate limit: of any sequence
  of vote attempts, of any length and from any identities, every one is accepted.
\<close>

theorem no_rate_limit:
  "map (voteBattle (select_client ''development'' api env)) ds = replicate (length ds) (Inr ())"
  by (induction ds) (simp_all add: mock_vote_accepted)

text \<open>
  Claim C5, as stated, has a vote rejected when its battle is not an active one or its
  element belongs to another battle. The mock client accepts a vote for battle 999, which
  does not exist, and a vote on battle 1 for element 3, an element of battle 2.
\<close>

theorem unknown_battle_counterexample:
  "\<forall>api env.
     \<not> references_active_battle \<lparr>vr_battle_id = ''999'', vr_element_id = ''1'',
         vr_voter_ip = None, vr_fingerprint = None\<rparr>
     \<and> voteBattle (select_client ''development'' api env)
         \<lparr>vr_battle_id = ''999'', vr_element_id = ''1'', vr_voter_ip = None, vr_fingerprint = None\<rparr>
        = Inr ()
     \<and> references_active_battle \<lparr>vr_battle_id = ''1'', vr_element_id = ''3'',
         vr_voter_ip = None, vr_fingerprint = None\<rparr>
     \<and> \<not> element_belongs \<lparr>vr_battle_id = ''1'', vr_element_id = ''3'',
         vr_voter_ip = None, vr_fingerprint = None\<rparr>
     \<and> voteBattle (select_client ''development'' api env)
         \<lparr>vr_battle_id = ''1'', vr_element_id = ''3'', vr_voter_ip = None, vr_fingerprint = None\<rparr>
        = Inr ()"
  by (simp add: mock_vote_accepted references_active_battle_def element_belongs_def
      getMockBattleById_def mockBattles_def battle1_def battle2_def battle3_def battle4_def
      battle5_def text_element_def)

text \<open>
  Claim C5, amended. The development mock client never rejects a vote for its battle or
  its element: every submission is accepted, whatever \<open>battle_id\<close> and \<open>element_id\<close>
  it names, and no POST to the mock client fails at all. For a battle id without a slash
  the answer is the envelope \<open>{success: true, message: 'Vote submitted successfully'}\<close>
  of the vote branch.
\<close>

theorem vote_never_rejected:
  "voteBattle (select_client ''development'' api env)
      \<lparr>vr_battle_id = b, vr_element_id = e, vr_voter_ip = ip, vr_fingerprint = fp\<rparr> = Inr ()
   \<and> c_post (select_client ''development'' api env) url body \<noteq> Inl err
   \<and> (CHR ''/'' \<notin> set b \<longrightarrow>
        c_post (select_client ''development'' api env) (''/battles/'' @ b @ ''/vote/'')
          (VoteData \<lparr>vr_battle_id = b, vr_element_id = e, vr_voter_ip = ip, vr_fingerprint = fp\<rparr>)
        = Inr \<lparr>r_data = JEnvelope \<lparr>success = True, data = None,
                 message = Some ''Vote submitted successfully'', meta = None\<rparr>\<rparr>)"
proof (intro conjI impI)
  show "voteBattle (select_client ''development'' api env)
      \<lparr>vr_battle_id = b, vr_element_id = e, vr_voter_ip = ip, vr_fingerprint = fp\<rparr> = Inr ()"
    by (rule mock_vote_accepted)
  show "c_post (select_client ''development'' api env) url body \<noteq> Inl err"
    by (simp add: dev_client mockApiClient_def mock_post_no_error)
  assume "CHR ''/'' \<notin> set b"
  then show "c_post (select_client ''development'' api env) (''/battles/'' @ b @ ''/vote/'')
          (VoteData \<lparr>vr_battle_id = b, vr_element_id = e, vr_voter_ip = ip, vr_fingerprint = fp\<rparr>)
        = Inr \<lparr>r_data = JEnvelope \<lparr>success = True, data = None,
                 message = Some ''Vote submitted successfully'', meta = None\<rparr>\<rparr>"
    by (simp add: dev_client mockApiClient_def mock_post_vote_url message_only_def
        del: append.simps)
qed

text \<open>Claim C5, at a concrete input: the same at battle 999, which does not exist, for element 3.\<close>

theorem vote_never_rejected_witness:
  "\<forall>api env.
     CHR ''/'' \<notin> set ''999''
     \<and> voteBattle (select_client ''development'' api env)
         \<lparr>vr_battle_id = ''999'', vr_element_id = ''3'', vr_voter_ip = None, vr_fingerprint = None\<rparr>
       = Inr ()
     \<and> c_post (select_client ''development'' api env) ''/battles/999/vote/''
          (VoteData \<lparr>vr_battle_id = ''999'', vr_element_id = ''3'', vr_voter_ip = None,
             vr_fingerprint = None\<rparr>)
        = Inr \<lparr>r_data = JEnvelope \<lparr>success = True, data = None,
                 message = Some ''Vote submitted successfully'', meta = None\<rparr>\<rparr>"
proof (intro allI)
  fix api env
  show "CHR ''/'' \<notin> set ''999''
     \<and> voteBattle (select_client ''development'' api env)
         \<lparr>vr_battle_id = ''999'', vr_element_id = ''3'', vr_voter_ip = None, vr_fingerprint = None\<rparr>
       = Inr ()
     \<and> c_post (select_client ''development'' api env) ''/battles/999/vote/''
          (VoteData \<lparr>vr_battle_id = ''999'', vr_element_id = ''3'', vr_voter_ip = None,
             vr_fingerprint = None\<rparr>)
        = Inr \<lparr>r_data = JEnvelope \<lparr>success = True, data = None,
                 message = Some ''Vote submitted successfully'', meta = None\<rparr>\<rparr>"
    using vote_never_rejected[of api env "''999''" "''3''" None None]
    by simp
qed


section \<open>The ranked lists of development mode\<close>

lemmas mock_data_defs = mockBattles_def battle1_def battle2_def battle3_def battle4_def
  battle5_def mockTrendingBattles_def mockPersonalizedBattles_def mockQuickPicksBattles_def

lemma dev_getTrending:
  "getTrendingBattles (select_client ''development'' api env) =
     Inr (JEnvelope \<lparr>success = True, data = Some (Battles mockTrendingBattles),
                     message = None, meta = None\<rparr>)"
  by (simp add: getTrendingBattles_def dev_client mockApiClient_def response_data_def
      mock_get_trending envelope_def)

lemma dev_getPersonalized:
  "getPersonalizedBattles (select_client ''development'' api env) =
     Inr (JEnvelope \<lparr>success = True, data = Some (Battles mockPersonalizedBattles),
                     message = None, meta = None\<rparr>)"
  by (simp add: getPersonalizedBattles_def dev_client mockApiClient_def response_data_def
      mock_get_personalized envelope_def)

lemma dev_getQuickPicks:
  "getQuickPicksBattles (select_client ''development'' api env) =
     Inr (JEnvelope \<lparr>success = True, data = Some (Battles mockQuickPicksBattles),
                     message = None, meta = None\<rparr>)"
  by (simp add: getQuickPicksBattles_def dev_client mockApiClient_def response_data_def
      mock_get_quick_picks envelope_def)

text \<open>
  Claim C3, as stated, has a battle with a strictly higher score stand before one with a
  lower score in every ranked list. In the trending list the mock client returns, battle 1
  (score 85.5, position 1) stands before battle 5 (score 88.9, position 2).
\<close>

theorem trending_order_counterexample:
  "\<forall>api env.
     getTrendingBattles (select_client ''development'' api env) =
       Inr (JEnvelope \<lparr>success = True, data = Some (Battles mockTrendingBattles),
                       message = None, meta = None\<rparr>)
     \<and> b_id (mockTrendingBattles ! 1) = ''1'' \<and> b_trending_score (mockTrendingBattles ! 1) = 85.5
     \<and> b_id (mockTrendingBattles ! 2) = ''5'' \<and> b_trending_score (mockTrendingBattles ! 2) = 88.9
     \<and> b_trending_score (mockTrendingBattles ! 1) < b_trending_score (mockTrendingBattles ! 2)
     \<and> \<not> score_ordered mockTrendingBattles"
  by (simp add: dev_getTrending score_ordered_def mock_data_defs)

text \<open>
  Claim C3, amended. The trending list of development mode is the fixed list
  \<open>mockTrendingBattles\<close>, the five mock battles in the order 3, 1, 5, 2, 4 with the
  scores 91.2, 85.5, 88.9, 72.3, 58.7: every computation of it yields this same order,
  whatever the environment, and no two mock battles share a score or an identifier, so no
  tie is ever broken by creation time or identifier. The list is not in score order.
\<close>

theorem trending_list_fixed:
  "getTrendingBattles (select_client ''development'' api env) =
     Inr (JEnvelope \<lparr>success = True, data = Some (Battles mockTrendingBattles),
                     message = None, meta = None\<rparr>)
   \<and> map b_id mockTrendingBattles = [''3'', ''1'', ''5'', ''2'', ''4'']
   \<and> map b_trending_score mockTrendingBattles = [91.2, 85.5, 88.9, 72.3, 58.7]
   \<and> distinct (map b_trending_score mockBattles)
   \<and> distinct (map b_id mockBattles)
   \<and> set mockTrendingBattles = set mockBattles"
  by (simp add: dev_getTrending mock_data_defs insert_commute)

text \<open>
  Claim C6, as stated, lets no already-voted battle stand before an eligible one on a
  "needs your vote" surface. The quick-picks list of the mock client starts with battle 4,
  which the user has voted on, and has the eligible battle 1 in third place.
\<close>

theorem quick_picks_counterexample:
  "\<forall>api env.
     getQuickPicksBattles (select_client ''development'' api env) =
       Inr (JEnvelope \<lparr>success = True, data = Some (Battles mockQuickPicksBattles),
                       message = None, meta = None\<rparr>)
     \<and> b_user_voted (mockQuickPicksBattles ! 0)
     \<and> \<not> eligible (mockQuickPicksBattles ! 0)
     \<and> eligible (mockQuickPicksBattles ! 2)
     \<and> \<not> eligible_first mockQuickPicksBattles"
  by (simp add: dev_getQuickPicks eligible_first_def eligible_def mock_data_defs)

text \<open>
  Claim C6, amended. The personalized list of development mode holds only battles that
  are active and not yet voted by the user, so no ineligible battle stands before an
  eligible one there. The quick-picks list is the fixed list of battles 4, 2, 1, all
  active, of which the first two are already voted and the last is not.
\<close>

theorem personalized_eligible_first:
  "getPersonalizedBattles (select_client ''development'' api env) =
     Inr (JEnvelope \<lparr>success = True, data = Some (Battles mockPersonalizedBattles),
                     message = None, meta = None\<rparr>)
   \<and> list_all eligible mockPersonalizedBattles
   \<and> eligible_first mockPersonalizedBattles
   \<and> getQuickPicksBattles (select_client ''development'' api env) =
     Inr (JEnvelope \<lparr>success = True, data = Some (Battles mockQuickPicksBattles),
                     message = None, meta = None\<rparr>)
   \<and> map b_id mockQuickPicksBattles = [''4'', ''2'', ''1'']
   \<and> map b_is_active mockQuickPicksBattles = [True, True, True]
   \<and> map b_user_voted mockQuickPicksBattles = [True, True, False]"
  by (simp add: dev_getPersonalized dev_getQuickPicks eligible_first_def eligible_def
      mock_data_defs)


section \<open>The polling schedule of the hooks\<close>

lemmas timer_defs = setInterval_def invoke_def clearInterval_def polls_every_def Let_def

text \<open>
  Claim C8, as stated, has each of the six hooks re-fetch on a five-minute interval. With
  an empty id, \<open>useBattle\<close> fetches nothing and registers no interval, and so does
  \<open>useBattlesByCategory\<close> with an empty category.
\<close>

theorem useBattle_empty_id_counterexample:
  "useBattle_effect [] fresh_runtime = (None, fresh_runtime)
   \<and> intervals (snd (useBattle_effect [] fresh_runtime)) = []
   \<and> fetches (snd (useBattle_effect [] fresh_runtime)) = []
   \<and> useBattlesByCategory_effect [] fresh_runtime = (None, fresh_runtime)
   \<and> intervals (snd (useBattlesByCategory_effect [] fresh_runtime)) = []"
  by (simp add: useBattle_effect_def useBattlesByCategory_effect_def fresh_runtime_def)

text \<open>
  Claim C8, amended. The effect of \<open>useBattles\<close>, \<open>useTrendingBattles\<close>,
  \<open>usePersonalizedBattles\<close> and \<open>useQuickPicksBattles\<close> fetches once, registers its
  fetch function on an interval of exactly 5 * 60 * 1000 = 300000 milliseconds, and its
  cleanup cancels that interval and no other. \<open>useBattle\<close> and \<open>useBattlesByCategory\<close>
  do the same when their id or category is not empty; when it is empty they fetch nothing
  and register nothing.
\<close>

theorem polling_interval:
  "polls_every (5 * 60 * 1000) (fetchBattles filters) rt (useBattles_effect filters rt)
   \<and> (if i = [] then useBattle_effect i rt = (None, rt)
       else polls_every (5 * 60 * 1000) (fetchBattle i) rt (useBattle_effect i rt))
   \<and> polls_every (5 * 60 * 1000) fetchTrending rt (useTrendingBattles_effect rt)
   \<and> polls_every (5 * 60 * 1000) fetchPersonalized rt (usePersonalizedBattles_effect rt)
   \<and> polls_every (5 * 60 * 1000) fetchQuickPicks rt (useQuickPicksBattles_effect rt)
   \<and> (if cat = [] then useBattlesByCategory_effect cat rt = (None, rt)
       else polls_every (5 * 60 * 1000) (fetchCategoryBattles cat) rt
              (useBattlesByCategory_effect cat rt))
   \<and> (5::nat) * 60 * 1000 = 300000"
proof -
  have a: "polls_every (5 * 60 * 1000) (fetchBattles filters) rt (useBattles_effect filters rt)"
    by (simp add: useBattles_effect_def timer_defs)
  have b: "if i = [] then useBattle_effect i rt = (None, rt)
       else polls_every (5 * 60 * 1000) (fetchBattle i) rt (useBattle_effect i rt)"
    by (simp add: useBattle_effect_def timer_defs)
  have c: "polls_every (5 * 60 * 1000) fetchTrending rt (useTrendingBattles_effect rt)"
    by (simp add: useTrendingBattles_effect_def timer_defs)
  have d: "polls_every (5 * 60 * 1000) fetchPersonalized rt (usePersonalizedBattles_effect rt)"
    by (simp add: usePersonalizedBattles_effect_def timer_defs)
  have e: "polls_every (5 * 60 * 1000) fetchQuickPicks rt (useQuickPicksBattles_effect rt)"
    by (simp add: useQuickPicksBattles_effect_def timer_defs)
  have f: "if cat = [] then useBattlesByCategory_effect cat rt = (None, rt)
       else polls_every (5 * 60 * 1000) (fetchCategoryBattles cat) rt
              (useBattlesByCategory_effect cat rt)"
    by (simp add: useBattlesByCategory_effect_def timer_defs)
  have g: "(5::nat) * 60 * 1000 = 300000" by simp
  from a b c d e f g show ?thesis by blast
qed


section \<open>Decay of an untouched battle's score\<close>

text \<open>
  Claim C4. A battle that receives no new event across \<open>T\<close> consecutive ticks has, at
  tick \<open>T\<close>, its score of tick 0 multiplied by \<open>time_decay_factor ^ T\<close>; a tick with no
  event multiplies the previous score by the decay factor and does not consult the
  factors, so nothing is recomputed. (Over the reals the equality is exact.)
\<close>

theorem zero_event_decay:
  "run_ticks cfg factors_of (replicate T []) s = s * time_decay_factor cfg ^ T
   \<and> tick cfg factors_of [] s = s * time_decay_factor cfg"
proof
  show "run_ticks cfg factors_of (replicate T []) s = s * time_decay_factor cfg ^ T"
  proof (induction T arbitrary: s)
    case 0
    then show ?case by simp
  next
    case (Suc T)
    have "run_ticks cfg factors_of (replicate (Suc T) []) s
          = run_ticks cfg factors_of (replicate T []) (s * time_decay_factor cfg)"
      by (simp add: tick_def)
    also have "\<dots> = s * time_decay_factor cfg * time_decay_factor cfg ^ T"
      by (rule Suc.IH)
    finally show ?case by (simp add: mult.assoc)
  qed
  show "tick cfg factors_of [] s = s * time_decay_factor cfg"
    by (simp add: tick_def)
qed

end
